theory Spec2Isabelle
  imports
    Complex_Main
    "HOL-Library.List_Lexorder"
    "HOL-Library.Char_ord"
    "HOL-Library.AList"
    "HOL-Library.Multiset"
begin

section \<open>Data model (types.ts)\<close>

text \<open>
  Amounts are JavaScript numbers in the source.  The application stores whole rupiah
  amounts, so they are modelled as unbounded integers; rounding of binary floating point
  is outside this development.  An optional field (\<^verbatim>\<open>merchant?\<close>, \<^verbatim>\<open>accountId?\<close>) is an
  \<open>option\<close>, \<open>None\<close> standing for \<^verbatim>\<open>undefined\<close>.  Strings are lists of 8-bit characters
  ordered lexicographically by character code, which is JavaScript's order of strings for
  the ASCII text of dates.
\<close>

datatype TransactionType = INCOME | EXPENSE

datatype AccountType = CASH | BANK | E_WALLET

record Account =
  a_id :: string
  a_name :: string
  a_type :: AccountType
  initialBalance :: int

record Transaction =
  t_id :: string
  date :: string
  amount :: int
  t_type :: TransactionType
  category :: string
  description :: string
  merchant :: "string option"
  accountId :: "string option"


section \<open>JavaScript values used by the views\<close>

subsection \<open>Truthiness and defaults\<close>

text \<open>\<^verbatim>\<open>x || 0\<close> on a number that may be \<^verbatim>\<open>undefined\<close>: zero and \<^verbatim>\<open>undefined\<close> are falsy.\<close>

definition or0 :: "int option \<Rightarrow> int" where
  "or0 v = (case v of None \<Rightarrow> 0 | Some n \<Rightarrow> (if n = 0 then 0 else n))"

text \<open>\<^verbatim>\<open>!s\<close> on a string that may be \<^verbatim>\<open>undefined\<close>: the empty string is falsy too.\<close>

definition falsy :: "string option \<Rightarrow> bool" where
  "falsy v = (case v of None \<Rightarrow> True | Some s \<Rightarrow> s = [])"

subsection \<open>Array.prototype.sort with a comparator\<close>

text \<open>
  The sort of ECMAScript 2019 is stable.  With a consistent comparator its result is the
  one that stable insertion produces: an element goes in front of the first later element
  it does not compare greater than.
\<close>

fun cmp_insert :: "('a \<Rightarrow> 'a \<Rightarrow> int) \<Rightarrow> 'a \<Rightarrow> 'a list \<Rightarrow> 'a list" where
  "cmp_insert c x [] = [x]"
| "cmp_insert c x (y # ys) = (if c x y \<le> 0 then x # y # ys else y # cmp_insert c x ys)"

definition js_sort :: "('a \<Rightarrow> 'a \<Rightarrow> int) \<Rightarrow> 'a list \<Rightarrow> 'a list" where
  "js_sort c xs = foldr (cmp_insert c) xs []"

subsection \<open>Numbers as text, and comparator results\<close>

function decimal :: "int \<Rightarrow> string" where
  "decimal n =
     (if n < 10 then [char_of (48 + n)]
      else decimal (n div 10) @ [char_of (48 + n mod 10)])"
  by pat_completeness auto
termination
  by (relation "measure nat") auto

declare decimal.simps [simp del]

text \<open>\<^verbatim>\<open>Number.prototype.toString\<close> on an integer.\<close>

definition toString :: "int \<Rightarrow> string" where
  "toString i = (if i < 0 then CHR ''-'' # decimal (- i) else decimal i)"

text \<open>\<^verbatim>\<open>a - b\<close> used as a comparator result: a NaN result counts as 0.\<close>

definition nan_sub :: "int option \<Rightarrow> int option \<Rightarrow> int" where
  "nan_sub a b = (case (a, b) of (Some x, Some y) \<Rightarrow> x - y | _ \<Rightarrow> 0)"

subsection \<open>Plain objects used as dictionaries\<close>

text \<open>
  A \<^verbatim>\<open>Record<string, V>\<close> is kept as an association list in insertion order;
  \<open>AList.update\<close> overwrites an existing key in place and appends a new one, as property
  assignment does.  Enumeration (\<^verbatim>\<open>Object.keys\<close>, \<^verbatim>\<open>Object.entries\<close>, \<^verbatim>\<open>Object.values\<close>)
  lists the keys that are array indices first, in ascending numeric order, and then the
  other keys in insertion order.
\<close>

type_synonym 'v Record = "(string \<times> 'v) list"

definition digit :: "char \<Rightarrow> int option" where
  "digit c = (let n = (of_char c :: nat) in if 48 \<le> n \<and> n \<le> 57 then Some (int n - 48) else None)"

fun digits_acc :: "int \<Rightarrow> string \<Rightarrow> int option" where
  "digits_acc v [] = Some v"
| "digits_acc v (c # cs) = (case digit c of None \<Rightarrow> None | Some k \<Rightarrow> digits_acc (10 * v + k) cs)"

definition digits_val :: "string \<Rightarrow> int option" where
  "digits_val s = (if s = [] then None else digits_acc 0 s)"

definition array_index :: "string \<Rightarrow> int option" where
  "array_index s =
     (case digits_val s of
        None \<Rightarrow> None
      | Some v \<Rightarrow> if (s = ''0'' \<or> hd s \<noteq> CHR ''0'') \<and> v \<le> 4294967294 then Some v else None)"

definition Object_entries :: "'v Record \<Rightarrow> (string \<times> 'v) list" where
  "Object_entries r =
     sort_key (\<lambda>kv. the (array_index (fst kv))) (filter (\<lambda>kv. array_index (fst kv) \<noteq> None) r)
     @ filter (\<lambda>kv. array_index (fst kv) = None) r"

definition Object_values :: "'v Record \<Rightarrow> 'v list" where
  "Object_values r = map snd (Object_entries r)"

definition Object_keys :: "'v Record \<Rightarrow> string list" where
  "Object_keys r = map fst (Object_entries r)"


subsection \<open>Category sums kept in a plain object\<close>

text \<open>
  The objects that collect sums per category are created by \<^verbatim>\<open>{}\<close>, so a key that is not
  an own property is looked up in \<^verbatim>\<open>Object.prototype\<close>.  Read through \<^verbatim>\<open>|| 0\<close> and
  \<^verbatim>\<open>+ amount\<close>, an inherited function acts as its source text and the object behind
  \<^verbatim>\<open>__proto__\<close> as \<^verbatim>\<open>[object Object]\<close>: the sum becomes a string.  The text of a built-in
  function is the engine's; it is given here as V8 prints it.  A stored value is therefore
  a number or such a string, and a string of this kind is never a numeric literal.
\<close>

datatype jsval = Num int | Str string

definition Object_prototype_text :: "string \<Rightarrow> string option" where
  "Object_prototype_text key =
     (if key = ''__proto__'' then Some ''[object Object]''
      else if key = ''constructor'' then Some ''function Object() { [native code] }''
      else if key \<in> set [''toString'', ''toLocaleString'', ''valueOf'', ''hasOwnProperty'',
                          ''isPrototypeOf'', ''propertyIsEnumerable'', ''__defineGetter__'',
                          ''__defineSetter__'', ''__lookupGetter__'', ''__lookupSetter__'']
      then Some (''function '' @ key @ ''() { [native code] }'')
      else None)"

text \<open>\<^verbatim>\<open>groups[key]\<close>: the own property, else the inherited member, else \<^verbatim>\<open>undefined\<close>.\<close>

definition get_prop :: "jsval Record \<Rightarrow> string \<Rightarrow> jsval option" where
  "get_prop groups key =
     (case map_of groups key of
        Some v \<Rightarrow> Some v
      | None \<Rightarrow> map_option Str (Object_prototype_text key))"

text \<open>\<^verbatim>\<open>(v || 0) + amount\<close>: zero, the empty string and \<^verbatim>\<open>undefined\<close> are falsy.\<close>

definition or0_plus :: "jsval option \<Rightarrow> int \<Rightarrow> jsval" where
  "or0_plus v a =
     (case v of
        None \<Rightarrow> Num a
      | Some (Num n) \<Rightarrow> Num ((if n = 0 then 0 else n) + a)
      | Some (Str s) \<Rightarrow> if s = [] then Num a else Str (s @ toString a))"

text \<open>
  \<^verbatim>\<open>groups[key] = v\<close>: the setter of \<^verbatim>\<open>__proto__\<close> ignores a value that is not an object,
  any other key becomes or stays an own property.
\<close>

definition set_prop :: "string \<Rightarrow> jsval \<Rightarrow> jsval Record \<Rightarrow> jsval Record" where
  "set_prop key v groups = (if key = ''__proto__'' then groups else AList.update key v groups)"

text \<open>The numeric value of a stored sum, NaN (\<open>None\<close>) for a string.\<close>

definition toNumber :: "jsval \<Rightarrow> int option" where
  "toNumber v = (case v of Num n \<Rightarrow> Some n | Str _ \<Rightarrow> None)"


section \<open>Dates\<close>

text \<open>
  A \<^verbatim>\<open>Date\<close> is held by its UTC calendar day (year, month index from 0, day of month) and
  the milliseconds since UTC midnight; \<open>getTime\<close> gives the epoch value.  The local time
  zone is a fixed offset \<open>tz\<close> in milliseconds east of UTC (daylight saving changes are
  not modelled).  An Invalid Date is \<open>None\<close>.
\<close>

type_synonym ymd = "int \<times> int \<times> int"
type_synonym Date = "ymd \<times> int"

definition msPerDay :: int where
  "msPerDay = 86400000"

definition InLeapYear :: "int \<Rightarrow> bool" where
  "InLeapYear y = (y mod 4 = 0 \<and> (y mod 100 \<noteq> 0 \<or> y mod 400 = 0))"

definition DaysInMonth :: "int \<Rightarrow> int \<Rightarrow> int" where
  "DaysInMonth y m =
     (if m = 1 then (if InLeapYear y then 29 else 28)
      else if m = 3 \<or> m = 5 \<or> m = 8 \<or> m = 10 then 30 else 31)"

definition next_day :: "ymd \<Rightarrow> ymd" where
  "next_day c = (case c of (y, m, d) \<Rightarrow>
     if d < DaysInMonth y m then (y, m, d + 1)
     else if m < 11 then (y, m + 1, 1) else (y + 1, 0, 1))"

definition prev_day :: "ymd \<Rightarrow> ymd" where
  "prev_day c = (case c of (y, m, d) \<Rightarrow>
     if 1 < d then (y, m, d - 1)
     else if 0 < m then (y, m - 1, DaysInMonth y (m - 1)) else (y - 1, 11, 31))"

definition add_days :: "ymd \<Rightarrow> int \<Rightarrow> ymd" where
  "add_days c n = (if 0 \<le> n then (next_day ^^ nat n) c else (prev_day ^^ nat (- n)) c)"

text \<open>ECMAScript's \<^verbatim>\<open>MakeDay\<close>: months outside 0..11 carry into the year, days overflow.\<close>

definition MakeDay :: "int \<Rightarrow> int \<Rightarrow> int \<Rightarrow> ymd" where
  "MakeDay y m d = add_days (y + m div 12, m mod 12, 1) (d - 1)"

definition DayFromYear :: "int \<Rightarrow> int" where
  "DayFromYear y = 365 * (y - 1970) + (y - 1969) div 4 - (y - 1901) div 100 + (y - 1601) div 400"

definition DaysBeforeMonth :: "int \<Rightarrow> int \<Rightarrow> int" where
  "DaysBeforeMonth y m = (\<Sum>k\<leftarrow>[0..<nat m]. DaysInMonth y (int k))"

definition Day :: "ymd \<Rightarrow> int" where
  "Day c = (case c of (y, m, d) \<Rightarrow> DayFromYear y + DaysBeforeMonth y m + d - 1)"

definition getTime :: "Date \<Rightarrow> int" where
  "getTime D = Day (fst D) * msPerDay + snd D"

definition toLocal :: "int \<Rightarrow> Date \<Rightarrow> ymd \<times> int" where
  "toLocal tz D = (let t = snd D + tz in (add_days (fst D) (t div msPerDay), t mod msPerDay))"

definition fromLocal :: "int \<Rightarrow> ymd \<Rightarrow> int \<Rightarrow> Date" where
  "fromLocal tz c ms = (let t = ms - tz in (add_days c (t div msPerDay), t mod msPerDay))"

definition getFullYear :: "int \<Rightarrow> Date \<Rightarrow> int" where
  "getFullYear tz D = fst (fst (toLocal tz D))"

definition getMonth :: "int \<Rightarrow> Date \<Rightarrow> int" where
  "getMonth tz D = fst (snd (fst (toLocal tz D)))"

definition getDate :: "int \<Rightarrow> Date \<Rightarrow> int" where
  "getDate tz D = snd (snd (fst (toLocal tz D)))"

text \<open>Day of the week, Sunday = 0; 1 January 1970 was a Thursday.\<close>

definition getDay :: "int \<Rightarrow> Date \<Rightarrow> int" where
  "getDay tz D = (Day (fst (toLocal tz D)) + 4) mod 7"

text \<open>
  \<^verbatim>\<open>new Date(year, monthIndex, day)\<close>: local midnight; a year from 0 to 99 means 1900 + year.
\<close>

definition new_Date_ymd :: "int \<Rightarrow> int \<Rightarrow> int \<Rightarrow> int \<Rightarrow> Date" where
  "new_Date_ymd tz y m d =
     fromLocal tz (MakeDay (if 0 \<le> y \<and> y \<le> 99 then 1900 + y else y) m d) 0"

text \<open>\<^verbatim>\<open>setHours(h)\<close> keeps minutes, seconds and milliseconds of the local time.\<close>

definition setHours1 :: "int \<Rightarrow> int \<Rightarrow> Date \<Rightarrow> Date" where
  "setHours1 tz h D = (case toLocal tz D of (c, ms) \<Rightarrow> fromLocal tz c (h * 3600000 + ms mod 3600000))"

definition setHours4 :: "int \<Rightarrow> int \<Rightarrow> int \<Rightarrow> int \<Rightarrow> int \<Rightarrow> Date \<Rightarrow> Date" where
  "setHours4 tz h mi s ms D =
     (case toLocal tz D of (c, _) \<Rightarrow> fromLocal tz c (h * 3600000 + mi * 60000 + s * 1000 + ms))"

definition setDate :: "int \<Rightarrow> int \<Rightarrow> Date \<Rightarrow> Date" where
  "setDate tz n D = (case toLocal tz D of ((y, m, _), ms) \<Rightarrow> fromLocal tz (MakeDay y m n) ms)"

text \<open>
  \<^verbatim>\<open>new Date(string)\<close> for the date-only form \<^verbatim>\<open>YYYY-MM-DD\<close>, which ECMAScript reads as
  UTC midnight.  What other strings give is left to the implementation; they are an
  Invalid Date here.
\<close>

definition parse_date :: "string \<Rightarrow> ymd option" where
  "parse_date s =
     (if length s = 10 \<and> s ! 4 = CHR ''-'' \<and> s ! 7 = CHR ''-'' then
        (case (digits_val (take 4 s), digits_val (take 2 (drop 5 s)), digits_val (drop 8 s)) of
           (Some y, Some m, Some d) \<Rightarrow>
             if 1 \<le> m \<and> m \<le> 12 \<and> 1 \<le> d \<and> d \<le> DaysInMonth y (m - 1)
             then Some (y, m - 1, d) else None
         | _ \<Rightarrow> None)
      else None)"

definition new_Date :: "string \<Rightarrow> Date option" where
  "new_Date s = (case parse_date s of None \<Rightarrow> None | Some c \<Rightarrow> Some (c, 0))"


section \<open>Reports view (components/Reports.tsx)\<close>

datatype Period = WEEKLY | MONTHLY | YEARLY | CUSTOM

record CustomRange =
  range_start :: string
  range_end :: string

text \<open>Monday 00:00 local time of the week of \<open>D\<close>, as both views compute it.\<close>

definition startOfWeek :: "int \<Rightarrow> Date \<Rightarrow> Date" where
  "startOfWeek tz D =
     (let day = (if getDay tz D = 0 then 7 else getDay tz D);
          D1 = (if day \<noteq> 1 then setHours1 tz (- 24 * (day - 1)) D else D)
      in setHours4 tz 0 0 0 0 D1)"

definition endOfWeek :: "int \<Rightarrow> Date \<Rightarrow> Date" where
  "endOfWeek tz D =
     (let s = startOfWeek tz D;
          e = setDate tz (getDate tz s + 6) s
      in setHours4 tz 23 59 59 999 e)"

definition inPeriod :: "int \<Rightarrow> Period \<Rightarrow> Date \<Rightarrow> CustomRange \<Rightarrow> Transaction \<Rightarrow> bool" where
  "inPeriod tz period currentDate customRange t =
     (let tDateStr = date t in
      case period of
        CUSTOM \<Rightarrow> range_start customRange \<le> tDateStr \<and> tDateStr \<le> range_end customRange
      | WEEKLY \<Rightarrow>
          (case new_Date (date t) of
             None \<Rightarrow> False
           | Some tDate \<Rightarrow>
               getTime (startOfWeek tz currentDate) \<le> getTime tDate
               \<and> getTime tDate \<le> getTime (endOfWeek tz currentDate))
      | MONTHLY \<Rightarrow>
          (case new_Date (date t) of
             None \<Rightarrow> False
           | Some tDate \<Rightarrow>
               getMonth tz tDate = getMonth tz currentDate
               \<and> getFullYear tz tDate = getFullYear tz currentDate)
      | YEARLY \<Rightarrow>
          (case new_Date (date t) of
             None \<Rightarrow> False
           | Some tDate \<Rightarrow> getFullYear tz tDate = getFullYear tz currentDate))"

definition filteredData ::
  "int \<Rightarrow> Transaction list \<Rightarrow> Period \<Rightarrow> Date \<Rightarrow> CustomRange \<Rightarrow> Transaction list" where
  "filteredData tz transactions period currentDate customRange =
     filter (inPeriod tz period currentDate customRange) transactions"

record Stats =
  income :: int
  expense :: int
  profit :: int

definition stats_step :: "Transaction \<Rightarrow> int \<times> int \<Rightarrow> int \<times> int" where
  "stats_step t acc = (case acc of (i, e) \<Rightarrow>
     if t_type t = INCOME then (i + amount t, e) else (i, e + amount t))"

definition stats :: "Transaction list \<Rightarrow> Stats" where
  "stats data = (case fold stats_step data (0, 0) of (i, e) \<Rightarrow>
     \<lparr>income = i, expense = e, profit = i - e\<rparr>)"

definition group_step ::
  "Transaction \<Rightarrow> jsval Record \<times> jsval Record \<Rightarrow> jsval Record \<times> jsval Record" where
  "group_step t acc = (case acc of (incomeGroups, expenseGroups) \<Rightarrow>
     if t_type t = INCOME
     then (set_prop (category t) (or0_plus (get_prop incomeGroups (category t)) (amount t))
             incomeGroups,
           expenseGroups)
     else (incomeGroups,
           set_prop (category t) (or0_plus (get_prop expenseGroups (category t)) (amount t))
             expenseGroups))"

definition dataToUse :: "Transaction list \<Rightarrow> string list \<Rightarrow> Transaction list" where
  "dataToUse data selectedCategories =
     (if 0 < length selectedCategories
      then filter (\<lambda>t. category t \<in> set selectedCategories) data else data)"

record AccountingData =
  incomeList :: "(string \<times> jsval) list"
  expenseList :: "(string \<times> jsval) list"

definition accountingData :: "Transaction list \<Rightarrow> string list \<Rightarrow> AccountingData" where
  "accountingData data selectedCategories =
     (case fold group_step (dataToUse data selectedCategories) ([], []) of
        (incomeGroups, expenseGroups) \<Rightarrow>
          \<lparr>incomeList =
             js_sort (\<lambda>a b. nan_sub (toNumber (snd b)) (toNumber (snd a)))
               (Object_entries incomeGroups),
           expenseList =
             js_sort (\<lambda>a b. nan_sub (toNumber (snd b)) (toNumber (snd a)))
               (Object_entries expenseGroups)\<rparr>)"


section \<open>Dashboard view\<close>

text \<open>The period \<^verbatim>\<open>'ALL'\<close> of the source is written \<open>ALL_TIME\<close>.\<close>

datatype DashboardPeriod = TODAY | THIS_WEEK | THIS_MONTH | LAST_MONTH | THIS_YEAR | ALL_TIME

text \<open>
  One call of the filter callback: the verdict for \<open>t\<close> and the value of \<^verbatim>\<open>now\<close> after the
  call.  The THIS_WEEK branch moves \<^verbatim>\<open>now\<close> itself to Monday 00:00, so the value is threaded
  through the list.
\<close>

definition keepTransaction ::
  "int \<Rightarrow> DashboardPeriod \<Rightarrow> Date \<Rightarrow> Date \<Rightarrow> Transaction \<Rightarrow> bool \<times> Date" where
  "keepTransaction tz period startOfDay now t =
     (let tDate = new_Date (date t) in
      case period of
        TODAY \<Rightarrow>
          ((case tDate of None \<Rightarrow> False | Some d \<Rightarrow> getTime startOfDay \<le> getTime d), now)
      | THIS_WEEK \<Rightarrow>
          (let now' = startOfWeek tz now
           in ((case tDate of None \<Rightarrow> False | Some d \<Rightarrow> getTime now' \<le> getTime d), now'))
      | THIS_MONTH \<Rightarrow>
          ((case tDate of None \<Rightarrow> False
            | Some d \<Rightarrow> getMonth tz d = getMonth tz now \<and> getFullYear tz d = getFullYear tz now),
           now)
      | LAST_MONTH \<Rightarrow>
          (let lastMonth = new_Date_ymd tz (getFullYear tz now) (getMonth tz now - 1) 1
           in ((case tDate of None \<Rightarrow> False
                | Some d \<Rightarrow> getMonth tz d = getMonth tz lastMonth
                            \<and> getFullYear tz d = getFullYear tz lastMonth),
               now))
      | THIS_YEAR \<Rightarrow>
          ((case tDate of None \<Rightarrow> False | Some d \<Rightarrow> getFullYear tz d = getFullYear tz now), now)
      | ALL_TIME \<Rightarrow> (True, now))"

fun filterFrom ::
  "int \<Rightarrow> DashboardPeriod \<Rightarrow> Date \<Rightarrow> Date \<Rightarrow> Transaction list \<Rightarrow> Transaction list" where
  "filterFrom tz period startOfDay now [] = []"
| "filterFrom tz period startOfDay now (t # ts) =
     (case keepTransaction tz period startOfDay now t of
        (keep, now') \<Rightarrow>
          if keep then t # filterFrom tz period startOfDay now' ts
          else filterFrom tz period startOfDay now' ts)"

definition filteredTransactions ::
  "int \<Rightarrow> Date \<Rightarrow> Transaction list \<Rightarrow> DashboardPeriod \<Rightarrow> Transaction list" where
  "filteredTransactions tz now transactions period =
     filterFrom tz period
       (new_Date_ymd tz (getFullYear tz now) (getMonth tz now) (getDate tz now)) now transactions"

record AccountBalance = Account +
  currentBalance :: int

definition accountBalances :: "Transaction list \<Rightarrow> Account list \<Rightarrow> AccountBalance list" where
  "accountBalances transactions accounts =
     map (\<lambda>acc.
            let accIncome =
                  fold (\<lambda>t sum. sum + amount t)
                    (filter (\<lambda>t. accountId t = Some (a_id acc) \<and> t_type t = INCOME) transactions) 0;
                accExpense =
                  fold (\<lambda>t sum. sum + amount t)
                    (filter (\<lambda>t. accountId t = Some (a_id acc) \<and> t_type t = EXPENSE) transactions) 0
            in \<lparr>a_id = a_id acc, a_name = a_name acc, a_type = a_type acc,
                initialBalance = initialBalance acc,
                currentBalance = or0 (Some (initialBalance acc)) + accIncome - accExpense\<rparr>)
         accounts"

definition totalAssets :: "AccountBalance list \<Rightarrow> int" where
  "totalAssets balances = fold (\<lambda>acc sum. sum + currentBalance acc) balances 0"

subsection \<open>Text produced by the browser\<close>

text \<open>
  The labels come from the browser's locale data and are parameters: the short month name
  of the default locale, and for \<^verbatim>\<open>id-ID\<close> the short weekday name and the day-and-month
  labels without and with a two-digit year.  Formatting an Invalid Date gives
  \<^verbatim>\<open>Invalid Date\<close>; \<^verbatim>\<open>NaN.toString()\<close> is \<^verbatim>\<open>NaN\<close>.
\<close>

record Locale =
  monthShort :: "int \<Rightarrow> string"
  weekdayShort :: "int \<Rightarrow> string"
  dayMonth :: "int \<Rightarrow> int \<Rightarrow> string"
  dayMonthYear :: "int \<Rightarrow> int \<Rightarrow> int \<Rightarrow> string"

subsection \<open>Dashboard chart\<close>

record DashboardRow =
  name_d :: string
  masuk :: int
  keluar :: int
  order :: "int option"

definition isMonthlyView :: "DashboardPeriod \<Rightarrow> bool" where
  "isMonthlyView period = (period = THIS_YEAR \<or> period = ALL_TIME)"

definition dashboardPrefill :: "int \<Rightarrow> Locale \<Rightarrow> Date \<Rightarrow> DashboardPeriod \<Rightarrow> DashboardRow Record" where
  "dashboardPrefill tz L now period =
     (if isMonthlyView period \<and> period = THIS_YEAR then
        fold (\<lambda>i data.
                let d = new_Date_ymd tz (getFullYear tz now) i 1;
                    key = monthShort L (getMonth tz d)
                in AList.update key \<lparr>name_d = key, masuk = 0, keluar = 0, order = Some i\<rparr> data)
          (map int [0..<12]) []
      else if period = THIS_MONTH \<or> period = LAST_MONTH then
        (let year = (if period = LAST_MONTH \<and> getMonth tz now = 0
                     then getFullYear tz now - 1 else getFullYear tz now);
             month = (if period = LAST_MONTH
                      then (if getMonth tz now = 0 then 11 else getMonth tz now - 1)
                      else getMonth tz now);
             daysInMonth = getDate tz (new_Date_ymd tz year (month + 1) 0)
         in fold (\<lambda>i data.
                    let d = new_Date_ymd tz year month i;
                        key = toString (getDate tz d)
                    in AList.update key \<lparr>name_d = key, masuk = 0, keluar = 0, order = Some i\<rparr> data)
              (map int [1..<Suc (nat daysInMonth)]) [])
      else [])"

definition dashboardKey ::
  "int \<Rightarrow> Locale \<Rightarrow> DashboardPeriod \<Rightarrow> Date option \<Rightarrow> string \<times> int option" where
  "dashboardKey tz L period tDate =
     (if isMonthlyView period then
        (if period = ALL_TIME then
           (case tDate of
              None \<Rightarrow> (''Invalid Date'' @ '' '' @ ''aN'', None)
            | Some d \<Rightarrow>
                (let y = toString (getFullYear tz d)
                 in (monthShort L (getMonth tz d) @ '' '' @ drop (length y - 2) y,
                     Some (getTime d))))
         else
           (case tDate of
              None \<Rightarrow> (''Invalid Date'', None)
            | Some d \<Rightarrow> (monthShort L (getMonth tz d), Some (getMonth tz d))))
      else
        (if period = THIS_WEEK \<or> period = TODAY then
           (case tDate of
              None \<Rightarrow> (''Invalid Date'', None)
            | Some d \<Rightarrow>
                (weekdayShort L (getDay tz d), Some (if getDay tz d = 0 then 7 else getDay tz d)))
         else
           (case tDate of
              None \<Rightarrow> (''NaN'', None)
            | Some d \<Rightarrow> (toString (getDate tz d), Some (getDate tz d)))))"

definition dashboardStep ::
  "int \<Rightarrow> Locale \<Rightarrow> DashboardPeriod \<Rightarrow> Transaction \<Rightarrow> DashboardRow Record \<Rightarrow> DashboardRow Record" where
  "dashboardStep tz L period t data =
     (case dashboardKey tz L period (new_Date (date t)) of
        (key, ord) \<Rightarrow>
          (let row = (case map_of data key of
                        None \<Rightarrow> \<lparr>name_d = key, masuk = 0, keluar = 0, order = ord\<rparr>
                      | Some r \<Rightarrow> r)
           in AList.update key
                (if t_type t = INCOME then row\<lparr>masuk := masuk row + amount t\<rparr>
                 else row\<lparr>keluar := keluar row + amount t\<rparr>)
                data))"

definition dashboardChartData ::
  "int \<Rightarrow> Locale \<Rightarrow> Date \<Rightarrow> Transaction list \<Rightarrow> DashboardPeriod \<Rightarrow> DashboardRow list" where
  "dashboardChartData tz L now filtered period =
     js_sort (\<lambda>a b. nan_sub (order a) (order b))
       (Object_values (fold (dashboardStep tz L period) filtered (dashboardPrefill tz L now period)))"

text \<open>
  The values the component derives from its props and its period state.  The two readings
  of the clock in one render are taken to be the same instant \<open>now\<close>.
\<close>

record DashboardView =
  v_filteredTransactions :: "Transaction list"
  v_accountBalances :: "AccountBalance list"
  v_totalAssets :: int
  v_chartData :: "DashboardRow list"

definition Dashboard ::
  "int \<Rightarrow> Locale \<Rightarrow> Date \<Rightarrow> Transaction list \<Rightarrow> Account list \<Rightarrow> DashboardPeriod \<Rightarrow> DashboardView" where
  "Dashboard tz L now transactions accounts period =
     \<lparr>v_filteredTransactions = filteredTransactions tz now transactions period,
      v_accountBalances = accountBalances transactions accounts,
      v_totalAssets = totalAssets (accountBalances transactions accounts),
      v_chartData =
        dashboardChartData tz L now (filteredTransactions tz now transactions period) period\<rparr>"


section \<open>Reports chart\<close>

record ChartRow =
  name :: string
  row_income :: int
  row_expense :: int
  sortDate :: "int option"






section \<open>Transaction list view\<close>

datatype FilterType = FT_ALL | FT_INCOME | FT_EXPENSE

datatype SortOrder = NEWEST | OLDEST | HIGHEST | LOWEST

definition ITEMS_PER_PAGE :: nat where
  "ITEMS_PER_PAGE = 10"

text \<open>Lower case of the ASCII letters; other characters are left as they are.\<close>

definition lower_char :: "char \<Rightarrow> char" where
  "lower_char c = (let n = (of_char c :: nat) in if 65 \<le> n \<and> n \<le> 90 then char_of (n + 32) else c)"

definition toLowerCase :: "string \<Rightarrow> string" where
  "toLowerCase s = map lower_char s"

fun str_includes :: "string \<Rightarrow> string \<Rightarrow> bool" where
  "str_includes [] sub = (sub = [])"
| "str_includes (c # cs) sub = (take (length sub) (c # cs) = sub \<or> str_includes cs sub)"

definition matchesSearch :: "string \<Rightarrow> Transaction \<Rightarrow> bool" where
  "matchesSearch searchTerm t =
     (str_includes (toLowerCase (description t)) (toLowerCase searchTerm)
      \<or> str_includes (toLowerCase (category t)) (toLowerCase searchTerm)
      \<or> (case merchant t of
            None \<Rightarrow> False
          | Some m \<Rightarrow> m \<noteq> [] \<and> str_includes (toLowerCase m) (toLowerCase searchTerm))
      \<or> str_includes (toString (amount t)) searchTerm)"

definition matchesType :: "FilterType \<Rightarrow> Transaction \<Rightarrow> bool" where
  "matchesType filterType t =
     (filterType = FT_ALL
      \<or> (filterType = FT_INCOME \<and> t_type t = INCOME)
      \<or> (filterType = FT_EXPENSE \<and> t_type t = EXPENSE))"

definition compareTx :: "SortOrder \<Rightarrow> Transaction \<Rightarrow> Transaction \<Rightarrow> int" where
  "compareTx sortOrder a b =
     (case sortOrder of
        NEWEST \<Rightarrow> nan_sub (map_option getTime (new_Date (date b))) (map_option getTime (new_Date (date a)))
      | OLDEST \<Rightarrow> nan_sub (map_option getTime (new_Date (date a))) (map_option getTime (new_Date (date b)))
      | HIGHEST \<Rightarrow> amount b - amount a
      | LOWEST \<Rightarrow> amount a - amount b)"

definition processedTransactions ::
  "Transaction list \<Rightarrow> string \<Rightarrow> FilterType \<Rightarrow> SortOrder \<Rightarrow> Transaction list" where
  "processedTransactions transactions searchTerm filterType sortOrder =
     js_sort (compareTx sortOrder)
       (filter (\<lambda>t. matchesSearch searchTerm t \<and> matchesType filterType t) transactions)"

definition totalPages :: "'a list \<Rightarrow> nat" where
  "totalPages processed = nat \<lceil>real (length processed) / real ITEMS_PER_PAGE\<rceil>"

text \<open>\<^verbatim>\<open>Array.prototype.slice(start, end)\<close>; a negative index counts from the end.\<close>

definition slice :: "'a list \<Rightarrow> int \<Rightarrow> int \<Rightarrow> 'a list" where
  "slice xs start fin =
     (let n = int (length xs);
          k = (if start < 0 then max (n + start) 0 else min start n);
          final = (if fin < 0 then max (n + fin) 0 else min fin n)
      in take (nat (final - k)) (drop (nat k) xs))"

definition paginatedTransactions :: "'a list \<Rightarrow> int \<Rightarrow> 'a list" where
  "paginatedTransactions processed currentPage =
     (let startIndex = (currentPage - 1) * int ITEMS_PER_PAGE
      in slice processed startIndex (startIndex + int ITEMS_PER_PAGE))"

text \<open>The two page buttons, as updates of the page state.\<close>

definition prevPage :: "int \<Rightarrow> int" where
  "prevPage p = max 1 (p - 1)"

definition nextPage :: "'a list \<Rightarrow> int \<Rightarrow> int" where
  "nextPage processed p = min (int (totalPages processed)) (p + 1)"


section \<open>Arrays that are sorted in place\<close>

text \<open>
  \<^verbatim>\<open>filter\<close> and \<^verbatim>\<open>slice\<close> build a new array; \<^verbatim>\<open>sort\<close> reorders the array it is called on
  and returns that same array.  To tell the two apart the arrays live in a store, a list
  of arrays addressed by position.
\<close>

type_synonym ref = nat
type_synonym 'a store = "'a list list"

definition deref :: "'a store \<Rightarrow> ref \<Rightarrow> 'a list" where
  "deref h r = (if r < length h then h ! r else [])"

definition alloc :: "'a list \<Rightarrow> 'a store \<Rightarrow> ref \<times> 'a store" where
  "alloc xs h = (length h, h @ [xs])"

definition Array_filter :: "('a \<Rightarrow> bool) \<Rightarrow> ref \<Rightarrow> 'a store \<Rightarrow> ref \<times> 'a store" where
  "Array_filter P r h = alloc (filter P (deref h r)) h"

definition Array_slice :: "int \<Rightarrow> int \<Rightarrow> ref \<Rightarrow> 'a store \<Rightarrow> ref \<times> 'a store" where
  "Array_slice start fin r h = alloc (slice (deref h r) start fin) h"

definition Array_sort :: "('a \<Rightarrow> 'a \<Rightarrow> int) \<Rightarrow> ref \<Rightarrow> 'a store \<Rightarrow> ref \<times> 'a store" where
  "Array_sort c r h = (r, h[r := js_sort c (deref h r)])"

definition filteredData_st ::
  "int \<Rightarrow> ref \<Rightarrow> Period \<Rightarrow> Date \<Rightarrow> CustomRange \<Rightarrow> Transaction store \<Rightarrow> ref \<times> Transaction store" where
  "filteredData_st tz transactions period currentDate customRange h =
     Array_filter (inPeriod tz period currentDate customRange) transactions h"

definition filteredExpenseData_st ::
  "ref \<Rightarrow> string list \<Rightarrow> Transaction store \<Rightarrow> ref \<times> Transaction store" where
  "filteredExpenseData_st filtered selectedCategories h =
     (case Array_filter (\<lambda>t. t_type t = EXPENSE) filtered h of
        (expenses, h1) \<Rightarrow>
          if 0 < length selectedCategories
          then Array_filter (\<lambda>t. category t \<in> set selectedCategories) expenses h1
          else (expenses, h1))"

definition topExpenses_st :: "ref \<Rightarrow> Transaction store \<Rightarrow> ref \<times> Transaction store" where
  "topExpenses_st filteredExpense h =
     (case Array_sort (\<lambda>a b. amount b - amount a) filteredExpense h of
        (arr, h1) \<Rightarrow> Array_slice 0 5 arr h1)"

definition processedTransactions_st ::
  "ref \<Rightarrow> string \<Rightarrow> FilterType \<Rightarrow> SortOrder \<Rightarrow> Transaction store \<Rightarrow> ref \<times> Transaction store" where
  "processedTransactions_st transactions searchTerm filterType sortOrder h =
     (case Array_filter (\<lambda>t. matchesSearch searchTerm t \<and> matchesType filterType t) transactions h of
        (result, h1) \<Rightarrow> Array_sort (compareTx sortOrder) result h1)"

text \<open>
  The reports view from the transaction list to the top expenses, with the list at address
  0 of a store that holds nothing else: the addresses of the three arrays, and the store
  before and after \<^verbatim>\<open>topExpenses\<close>.
\<close>

definition reportsTop_st ::
  "int \<Rightarrow> Transaction list \<Rightarrow> Period \<Rightarrow> Date \<Rightarrow> CustomRange \<Rightarrow> string list \<Rightarrow>
     (ref \<times> ref \<times> ref) \<times> Transaction store \<times> Transaction store" where
  "reportsTop_st tz txs period currentDate customRange selectedCategories =
     (case filteredData_st tz 0 period currentDate customRange [txs] of
        (fd, h1) \<Rightarrow>
          (case filteredExpenseData_st fd selectedCategories h1 of
             (fe, h2) \<Rightarrow>
               (case topExpenses_st fe h2 of
                  (tops, h3) \<Rightarrow> ((fd, fe, tops), h2, h3))))"


section \<open>Application state (App component)\<close>

record AppState =
  transactions :: "Transaction list"
  accounts :: "Account list"



definition defaultAccounts :: "Account list" where
  "defaultAccounts =
     [\<lparr>a_id = ''1'', a_name = ''Kas Tunai'', a_type = CASH, initialBalance = 0\<rparr>,
      \<lparr>a_id = ''2'', a_name = ''Rekening Bank'', a_type = BANK, initialBalance = 0\<rparr>]"







text \<open>
  \<^verbatim>\<open>addTransaction\<close> receives a transaction without id; the argument's \<open>t_id\<close> is overwritten
  by the text of the clock reading \<open>clock\<close>.
\<close>

definition addTransaction :: "AppState \<Rightarrow> int \<Rightarrow> Transaction \<Rightarrow> AppState" where
  "addTransaction s clock t =
     (let txData = (if falsy (accountId t) \<and> 0 < length (accounts s)
                    then t\<lparr>accountId := Some (a_id (hd (accounts s)))\<rparr> else t);
          newTransaction = txData\<lparr>t_id := toString clock\<rparr>
      in s\<lparr>transactions := newTransaction # transactions s\<rparr>)"


text \<open>The confirmed deletion of one transaction (\<^verbatim>\<open>executeConfirm\<close>).\<close>

definition deleteTransaction :: "string \<Rightarrow> AppState \<Rightarrow> AppState" where
  "deleteTransaction payload s =
     (if payload = [] then s
      else s\<lparr>transactions := filter (\<lambda>t. t_id t \<noteq> payload) (transactions s)\<rparr>)"



section \<open>State of the transaction list view\<close>

text \<open>
  The view keeps search term, type filter, sort order and current page in hooks and gets
  the transactions as a prop.  An effect sets the page back to 1 when search term, type
  filter or sort order change; a new transactions prop leaves the page as it is.
\<close>

record ListView =
  lv_transactions :: "Transaction list"
  lv_searchTerm :: string
  lv_filterType :: FilterType
  lv_sortOrder :: SortOrder
  lv_currentPage :: int

definition initialView :: "Transaction list \<Rightarrow> ListView" where
  "initialView txs =
     \<lparr>lv_transactions = txs, lv_searchTerm = [], lv_filterType = FT_ALL, lv_sortOrder = NEWEST,
      lv_currentPage = 1\<rparr>"

definition processedOf :: "ListView \<Rightarrow> Transaction list" where
  "processedOf v =
     processedTransactions (lv_transactions v) (lv_searchTerm v) (lv_filterType v) (lv_sortOrder v)"

definition shownPage :: "ListView \<Rightarrow> Transaction list" where
  "shownPage v = paginatedTransactions (processedOf v) (lv_currentPage v)"

text \<open>The bar with the two page buttons is rendered only for more than ten items.\<close>

definition pagerShown :: "ListView \<Rightarrow> bool" where
  "pagerShown v = (ITEMS_PER_PAGE < length (processedOf v))"

definition clickNext :: "ListView \<Rightarrow> ListView" where
  "clickNext v = v\<lparr>lv_currentPage := nextPage (processedOf v) (lv_currentPage v)\<rparr>"

definition clickPrev :: "ListView \<Rightarrow> ListView" where
  "clickPrev v = v\<lparr>lv_currentPage := prevPage (lv_currentPage v)\<rparr>"

definition setSearchTerm :: "string \<Rightarrow> ListView \<Rightarrow> ListView" where
  "setSearchTerm x v =
     (if x = lv_searchTerm v then v else v\<lparr>lv_searchTerm := x, lv_currentPage := 1\<rparr>)"

definition setFilterType :: "FilterType \<Rightarrow> ListView \<Rightarrow> ListView" where
  "setFilterType x v =
     (if x = lv_filterType v then v else v\<lparr>lv_filterType := x, lv_currentPage := 1\<rparr>)"

definition setSortOrder :: "SortOrder \<Rightarrow> ListView \<Rightarrow> ListView" where
  "setSortOrder x v =
     (if x = lv_sortOrder v then v else v\<lparr>lv_sortOrder := x, lv_currentPage := 1\<rparr>)"

text \<open>The view rendered again with the transactions of the application state.\<close>

definition rerender :: "AppState \<Rightarrow> ListView \<Rightarrow> ListView" where
  "rerender s v = v\<lparr>lv_transactions := transactions s\<rparr>"


section \<open>Notions used in the statements\<close>

text \<open>
  Lexicographic comparison of two strings by character code, the comparison the
  specification names for the fixed-width \<^verbatim>\<open>YYYY-MM-DD\<close> dates.
\<close>

fun lex_le :: "string \<Rightarrow> string \<Rightarrow> bool" where
  "lex_le [] ys = True"
| "lex_le (x # xs) [] = False"
| "lex_le (x # xs) (y # ys) =
     ((of_char x :: nat) < of_char y \<or> (x = y \<and> lex_le xs ys))"

text \<open>
  The net recomputed from the accounting view: the sum of the income line items minus the
  sum of the expense line items.  There is no such number (\<open>None\<close>) when a line item holds
  a string.
\<close>

fun sumAmounts :: "(string \<times> jsval) list \<Rightarrow> int option" where
  "sumAmounts [] = Some 0"
| "sumAmounts ((k, Num n) # rest) = map_option ((+) n) (sumAmounts rest)"
| "sumAmounts ((k, Str s) # rest) = None"

definition lineItemsNet :: "AccountingData \<Rightarrow> int option" where
  "lineItemsNet a =
     (case (sumAmounts (incomeList a), sumAmounts (expenseList a)) of
        (Some i, Some e) \<Rightarrow> Some (i - e)
      | _ \<Rightarrow> None)"

text \<open>No category label of the transactions names a member of \<^verbatim>\<open>Object.prototype\<close>.\<close>

definition plain_categories :: "Transaction list \<Rightarrow> bool" where
  "plain_categories data = list_all (\<lambda>t. Object_prototype_text (category t) = None) data"

text \<open>A stored transaction carries an account reference.\<close>

definition hasAccountId :: "Transaction \<Rightarrow> bool" where
  "hasAccountId t = (accountId t \<noteq> None)"


text \<open>A calendar day that exists: month index 0 to 11, day within the month.\<close>

definition valid_ymd :: "ymd \<Rightarrow> bool" where
  "valid_ymd c = (case c of (y, m, d) \<Rightarrow> 0 \<le> m \<and> m \<le> 11 \<and> 1 \<le> d \<and> d \<le> DaysInMonth y m)"

text \<open>
  The transactions of a month: by the day written in the date string (\<open>dated_in\<close>), and by
  the local calendar fields of the \<^verbatim>\<open>Date\<close> object the views build from it (\<open>local_in\<close>).
\<close>

definition dated_in :: "int \<Rightarrow> int \<Rightarrow> Transaction \<Rightarrow> bool" where
  "dated_in y m t =
     (case parse_date (date t) of None \<Rightarrow> False | Some (y', m', _) \<Rightarrow> y' = y \<and> m' = m)"

definition local_in :: "int \<Rightarrow> int \<Rightarrow> int \<Rightarrow> Transaction \<Rightarrow> bool" where
  "local_in tz y m t =
     (case new_Date (date t) of
        None \<Rightarrow> False
      | Some d \<Rightarrow> getFullYear tz d = y \<and> getMonth tz d = m)"

text \<open>
  The chart of a year as the specification describes it: one row for each month index 0 to
  11, in that order, with the month's label and the income and expense of the transactions
  whose \<^verbatim>\<open>Date\<close> object falls in that month (local time).  A month without transactions
  has the empty sums, zero.
\<close>

definition months :: "int list" where
  "months = map int [0..<12]"

definition monthOf :: "int \<Rightarrow> Transaction \<Rightarrow> int option" where
  "monthOf tz t = map_option (getMonth tz) (new_Date (date t))"

definition monthTotal :: "int \<Rightarrow> TransactionType \<Rightarrow> Transaction list \<Rightarrow> int \<Rightarrow> int" where
  "monthTotal tz ty data m =
     sum_list (map amount (filter (\<lambda>t. t_type t = ty \<and> monthOf tz t = Some m) data))"

definition yearRow :: "int \<Rightarrow> Locale \<Rightarrow> int \<Rightarrow> (int \<Rightarrow> int) \<Rightarrow> (int \<Rightarrow> int) \<Rightarrow> int \<Rightarrow> ChartRow" where
  "yearRow tz L y f g m =
     \<lparr>name = monthShort L m, row_income = f m, row_expense = g m,
      sortDate = Some (getTime (new_Date_ymd tz y m 1))\<rparr>"

definition yearRows :: "int \<Rightarrow> Locale \<Rightarrow> int \<Rightarrow> Transaction list \<Rightarrow> ChartRow list" where
  "yearRows tz L y data =
     map (yearRow tz L y (monthTotal tz INCOME data) (monthTotal tz EXPENSE data)) months"

definition dashboardYearRow :: "Locale \<Rightarrow> (int \<Rightarrow> int) \<Rightarrow> (int \<Rightarrow> int) \<Rightarrow> int \<Rightarrow> DashboardRow" where
  "dashboardYearRow L f g m = \<lparr>name_d = monthShort L m, masuk = f m, keluar = g m, order = Some m\<rparr>"

definition dashboardYearRows :: "int \<Rightarrow> Locale \<Rightarrow> Transaction list \<Rightarrow> DashboardRow list" where
  "dashboardYearRows tz L data =
     map (dashboardYearRow L (monthTotal tz INCOME data) (monthTotal tz EXPENSE data)) months"


section \<open>Sample data\<close>

definition tx ::
  "string \<Rightarrow> string \<Rightarrow> int \<Rightarrow> TransactionType \<Rightarrow> string \<Rightarrow> string option \<Rightarrow> Transaction" where
  "tx i d a ty c acc =
     \<lparr>t_id = i, date = d, amount = a, t_type = ty, category = c, description = [],
      merchant = None, accountId = acc\<rparr>"

definition march_txs :: "Transaction list" where
  "march_txs =
     [tx ''1'' ''2024-03-01'' 100 INCOME ''Penjualan'' None,
      tx ''2'' ''2024-03-01'' 40 EXPENSE ''Transportasi'' None,
      tx ''3'' ''2024-03-02'' 20 EXPENSE ''Lainnya'' None]"

definition march_15 :: Date where
  "march_15 = ((2024, 2, 15), 0)"

definition march_range :: CustomRange where
  "march_range = \<lparr>range_start = ''2024-03-01'', range_end = ''2024-03-31''\<rparr>"

definition reversed_range :: CustomRange where
  "reversed_range = \<lparr>range_start = ''2024-03-31'', range_end = ''2024-03-01''\<rparr>"

text \<open>Two clocks at noon: Jakarta (UTC+7) and New York (UTC-5).\<close>

definition wib :: int where
  "wib = 7 * 3600000"

definition est :: int where
  "est = - 5 * 3600000"

definition noon_15_march_wib :: Date where
  "noon_15_march_wib = ((2024, 2, 15), 5 * 3600000)"

definition noon_10_january_wib :: Date where
  "noon_10_january_wib = ((2024, 0, 10), 5 * 3600000)"

definition noon_10_january_est :: Date where
  "noon_10_january_est = ((2024, 0, 10), 17 * 3600000)"

definition winter_txs :: "Transaction list" where
  "winter_txs =
     [tx ''1'' ''2023-11-30'' 10 EXPENSE ''Lainnya'' None,
      tx ''2'' ''2023-12-01'' 20 EXPENSE ''Lainnya'' None,
      tx ''3'' ''2023-12-31'' 30 INCOME ''Penjualan'' None,
      tx ''4'' ''2024-01-01'' 40 INCOME ''Penjualan'' None]"

definition rising_expenses :: "Transaction list" where
  "rising_expenses =
     [tx ''1'' ''2024-03-01'' 10 EXPENSE ''Transportasi'' None,
      tx ''2'' ''2024-03-02'' 30 EXPENSE ''Lainnya'' None]"

definition no_accounts :: AppState where
  "no_accounts = \<lparr>transactions = [], accounts = []\<rparr>"

definition one_account :: AppState where
  "one_account =
     \<lparr>transactions = [],
      accounts = [\<lparr>a_id = ''1'', a_name = ''Kas Tunai'', a_type = CASH, initialBalance = 0\<rparr>]\<rparr>"


text \<open>Eleven transactions on eleven days, the oldest with id 1.\<close>

definition eleven_txs :: "Transaction list" where
  "eleven_txs =
     map (\<lambda>n. tx (toString n) (''2024-03-'' @ (if n < 10 then ''0'' else []) @ toString n)
                 (1000 * n) EXPENSE ''Lainnya'' (Some ''1''))
       [1, 2, 3, 4, 5, 6, 7, 8, 9, 10, 11]"

definition eleven_state :: AppState where
  "eleven_state = \<lparr>transactions = eleven_txs, accounts = defaultAccounts\<rparr>"

text \<open>Two transactions whose category labels are names of \<^verbatim>\<open>Object.prototype\<close> members.\<close>

definition prototype_txs :: "Transaction list" where
  "prototype_txs =
     [tx ''1'' ''2024-03-01'' 60 INCOME ''toString'' None,
      tx ''2'' ''2024-03-02'' 7 EXPENSE ''__proto__'' None]"





section \<open>Sums of the income statement\<close>

lemma fold_stats_step:
  "fold stats_step xs (i, e) =
     (i + sum_list (map amount (filter (\<lambda>t. t_type t = INCOME) xs)),
      e + sum_list (map amount (filter (\<lambda>t. t_type t \<noteq> INCOME) xs)))"
  by (induction xs arbitrary: i e) (simp_all add: stats_step_def)

lemma stats_profit: "profit (stats d) = income (stats d) - expense (stats d)"
  by (simp add: stats_def split: prod.splits)

lemma stats_eq:
  "stats d = \<lparr>income = sum_list (map amount (filter (\<lambda>t. t_type t = INCOME) d)),
              expense = sum_list (map amount (filter (\<lambda>t. t_type t \<noteq> INCOME) d)),
              profit = sum_list (map amount (filter (\<lambda>t. t_type t = INCOME) d))
                       - sum_list (map amount (filter (\<lambda>t. t_type t \<noteq> INCOME) d))\<rparr>"
  by (simp add: stats_def fold_stats_step)

text \<open>A key that is not inherited is read and written as in a dictionary.\<close>

lemma proto_is_inherited: "Object_prototype_text ''__proto__'' \<noteq> None"
  by (simp add: Object_prototype_text_def)

lemma get_prop_plain: "Object_prototype_text k = None \<Longrightarrow> get_prop al k = map_of al k"
  by (simp add: get_prop_def split: option.splits)

lemma set_prop_plain: "Object_prototype_text k = None \<Longrightarrow> set_prop k v al = AList.update k v al"
  using proto_is_inherited by (auto simp: set_prop_def)

lemma sum_update_or0_plus:
  "sumAmounts al = Some s \<Longrightarrow>
     sumAmounts (AList.update k (or0_plus (map_of al k) a) al) = Some (s + a)"
proof (induction al arbitrary: s rule: sumAmounts.induct)
  case 1
  then show ?case by (simp add: or0_plus_def)
next
  case (2 k' n rest)
  then obtain s' where s': "sumAmounts rest = Some s'" and s: "s = n + s'"
    by auto
  show ?case
  proof (cases "k' = k")
    case True
    then show ?thesis by (simp add: or0_plus_def s' s)
  next
    case False
    with "2.IH"[OF s'] show ?thesis by (simp add: s)
  qed
next
  case (3 k' t rest)
  then show ?case by simp
qed

lemma group_step_income:
  "t_type t = INCOME \<Longrightarrow> Object_prototype_text (category t) = None \<Longrightarrow>
     group_step t (ig, eg) =
       (AList.update (category t) (or0_plus (map_of ig (category t)) (amount t)) ig, eg)"
  by (simp add: group_step_def get_prop_plain set_prop_plain)

lemma group_step_expense:
  "t_type t \<noteq> INCOME \<Longrightarrow> Object_prototype_text (category t) = None \<Longrightarrow>
     group_step t (ig, eg) =
       (ig, AList.update (category t) (or0_plus (map_of eg (category t)) (amount t)) eg)"
  by (simp add: group_step_def get_prop_plain set_prop_plain)

lemma fold_group_step:
  "plain_categories xs \<Longrightarrow> sumAmounts ig = Some i \<Longrightarrow> sumAmounts eg = Some e \<Longrightarrow>
   fold group_step xs (ig, eg) = (ig', eg') \<Longrightarrow>
     sumAmounts ig' = Some (i + sum_list (map amount (filter (\<lambda>t. t_type t = INCOME) xs)))
   \<and> sumAmounts eg' = Some (e + sum_list (map amount (filter (\<lambda>t. t_type t \<noteq> INCOME) xs)))"
proof (induction xs arbitrary: ig eg i e)
  case Nil
  then show ?case by simp
next
  case (Cons t ts)
  from Cons.prems(1) have p: "Object_prototype_text (category t) = None" and ps: "plain_categories ts"
    by (simp_all add: plain_categories_def)
  show ?case
  proof (cases "t_type t = INCOME")
    case True
    let ?ig = "AList.update (category t) (or0_plus (map_of ig (category t)) (amount t)) ig"
    have "fold group_step ts (?ig, eg) = (ig', eg')"
      using Cons.prems(4) True p by (simp add: group_step_income)
    from Cons.IH[OF ps sum_update_or0_plus[OF Cons.prems(2)] Cons.prems(3) this] True
    show ?thesis by (simp add: add.assoc)
  next
    case False
    let ?eg = "AList.update (category t) (or0_plus (map_of eg (category t)) (amount t)) eg"
    have "fold group_step ts (ig, ?eg) = (ig', eg')"
      using Cons.prems(4) False p by (simp add: group_step_expense)
    from Cons.IH[OF ps Cons.prems(2) sum_update_or0_plus[OF Cons.prems(3)] this] False
    show ?thesis by (simp add: add.assoc)
  qed
qed

text \<open>Sorting and enumeration permute the entries, and the sum does not see the order.\<close>

lemma mset_cmp_insert: "mset (cmp_insert c x ys) = add_mset x (mset ys)"
  by (induction ys) simp_all

lemma mset_js_sort: "mset (js_sort c xs) = mset xs"
  by (induction xs) (simp_all add: js_sort_def mset_cmp_insert)

lemma mset_Object_entries: "mset (Object_entries r) = mset r"
  by (simp add: Object_entries_def)

lemma sum_list_mset_cong: "mset xs = mset ys \<Longrightarrow> sum_list (map f xs) = sum_list (map f ys)"
  for f :: "'a \<Rightarrow> int"
  by (metis mset_map sum_mset_sum_list)

lemma sumAmounts_eq:
  "sumAmounts xs =
     (if \<forall>kv\<in>set xs. toNumber (snd kv) \<noteq> None
      then Some (sum_list (map (\<lambda>kv. case snd kv of Num n \<Rightarrow> n | Str _ \<Rightarrow> 0) xs))
      else None)"
  by (induction xs rule: sumAmounts.induct) (simp_all add: toNumber_def)

lemma sumAmounts_mset: "mset xs = mset ys \<Longrightarrow> sumAmounts xs = sumAmounts ys"
  using mset_eq_setD[of xs ys]
    sum_list_mset_cong[of xs ys "\<lambda>kv. case snd kv of Num n \<Rightarrow> n | Str _ \<Rightarrow> 0"]
  by (simp add: sumAmounts_eq)

lemma sum_sorted_entries: "sumAmounts (js_sort c (Object_entries r)) = sumAmounts r"
  by (rule sumAmounts_mset) (simp add: mset_js_sort mset_Object_entries)

lemma plain_dataToUse: "plain_categories d \<Longrightarrow> plain_categories (dataToUse d sel)"
  by (simp add: plain_categories_def dataToUse_def list_all_iff)

lemma lineItemsNet_eq:
  assumes "plain_categories d"
  shows "lineItemsNet (accountingData d sel) = Some (profit (stats (dataToUse d sel)))"
proof -
  obtain ig eg where f: "fold group_step (dataToUse d sel) ([], []) = (ig, eg)"
    by (cases "fold group_step (dataToUse d sel) ([], [])")
  have z: "sumAmounts [] = Some 0" by simp
  from fold_group_step[OF plain_dataToUse[OF assms] z z f] show ?thesis
    by (simp add: lineItemsNet_def accountingData_def f sum_sorted_entries stats_eq)
qed

lemma dataToUse_all:
  "sel = [] \<or> (\<forall>t\<in>set d. category t \<in> set sel) \<Longrightarrow> dataToUse d sel = d"
  by (auto simp: dataToUse_def)

text \<open>
  C1.  In the reports view the period totals satisfy profit = income - expense.  When no
  category label of the period names a member of \<^verbatim>\<open>Object.prototype\<close>, the net recomputed
  from the accounting line items is the net of the transactions that pass the category
  selection; it equals the net of the period totals when no category is selected or when
  the selection covers every category of the period.
\<close>

theorem stats_net_and_line_items:
  "profit (stats (filteredData tz txs p cd r)) =
     income (stats (filteredData tz txs p cd r)) - expense (stats (filteredData tz txs p cd r))
   \<and> (plain_categories (filteredData tz txs p cd r) \<longrightarrow>
        lineItemsNet (accountingData (filteredData tz txs p cd r) sel) =
          Some (profit (stats (dataToUse (filteredData tz txs p cd r) sel)))
        \<and> (sel = [] \<or> (\<forall>t\<in>set (filteredData tz txs p cd r). category t \<in> set sel) \<longrightarrow>
             lineItemsNet (accountingData (filteredData tz txs p cd r) sel) =
               Some (profit (stats (filteredData tz txs p cd r)))))"
  using dataToUse_all[of sel "filteredData tz txs p cd r"]
  by (auto simp: stats_profit lineItemsNet_eq)

lemma march_stats:
  "stats (filteredData 0 march_txs MONTHLY march_15 march_range) =
     \<lparr>income = 100, expense = 60, profit = 40\<rparr>"
  by code_simp

theorem stats_net_and_line_items_witness:
  "plain_categories (filteredData 0 march_txs MONTHLY march_15 march_range)
   \<and> lineItemsNet (accountingData (filteredData 0 march_txs MONTHLY march_15 march_range) []) =
       Some 40"
proof -
  have p: "plain_categories (filteredData 0 march_txs MONTHLY march_15 march_range)"
    by code_simp
  from stats_net_and_line_items[of 0 march_txs MONTHLY march_15 march_range "[]"] p
  have "lineItemsNet (accountingData (filteredData 0 march_txs MONTHLY march_15 march_range) []) =
          Some (profit (stats (filteredData 0 march_txs MONTHLY march_15 march_range)))"
    by blast
  with p show ?thesis by (simp add: march_stats)
qed

text \<open>
  With the category \<^verbatim>\<open>Lainnya\<close> selected, the line items of March 2024 give a net of -20
  while the period totals keep their net of 40.
\<close>

theorem line_items_net_differs_under_selection:
  "lineItemsNet
     (accountingData (filteredData 0 march_txs MONTHLY march_15 march_range) [''Lainnya''])
   \<noteq> Some (profit (stats (filteredData 0 march_txs MONTHLY march_15 march_range)))"
  by code_simp

text \<open>
  An income of 60 under the label \<^verbatim>\<open>toString\<close> is stored as a string and an expense of 7
  under \<^verbatim>\<open>__proto__\<close> is not stored, while the period totals count both.
\<close>

lemma inherited_labels_leave_the_sums:
  "accountingData (filteredData 0 prototype_txs MONTHLY march_15 march_range) [] =
     \<lparr>incomeList = [(''toString'', Str ''function toString() { [native code] }60'')],
      expenseList = []\<rparr>"
  "lineItemsNet (accountingData (filteredData 0 prototype_txs MONTHLY march_15 march_range) []) = None"
  "stats (filteredData 0 prototype_txs MONTHLY march_15 march_range) =
     \<lparr>income = 60, expense = 7, profit = 53\<rparr>"
  by code_simp+


section \<open>Custom date ranges\<close>

lemma le_string_lex_le: "a \<le> b \<longleftrightarrow> lex_le a b" for a b :: string
  by (induction a b rule: lex_le.induct) (simp_all add: less_char_def)

lemma inPeriod_CUSTOM:
  "inPeriod tz CUSTOM cd r t \<longleftrightarrow> range_start r \<le> date t \<and> date t \<le> range_end r"
  by (simp add: inPeriod_def Let_def)

text \<open>
  C4.  Under the CUSTOM period a transaction is in the filtered subset exactly when its
  date string lies between the start and the end of the range in lexicographic order,
  both ends included.
\<close>

theorem custom_range_inclusive:
  "t \<in> set (filteredData tz txs CUSTOM cd r) \<longleftrightarrow>
     t \<in> set txs \<and> lex_le (range_start r) (date t) \<and> lex_le (date t) (range_end r)"
  by (simp add: filteredData_def inPeriod_CUSTOM le_string_lex_le)

text \<open>
  C5.  A custom range whose end precedes its start selects nothing, and the totals and
  line items computed from the selection are all empty or zero.  The filter has no
  failing branch: it is a total function.
\<close>

theorem reversed_range_empty:
  "range_end r < range_start r \<Longrightarrow>
     filteredData tz txs CUSTOM cd r = []
     \<and> stats (filteredData tz txs CUSTOM cd r) = \<lparr>income = 0, expense = 0, profit = 0\<rparr>
     \<and> accountingData (filteredData tz txs CUSTOM cd r) sel =
         \<lparr>incomeList = [], expenseList = []\<rparr>"
proof -
  assume a: "range_end r < range_start r"
  have "\<not> (range_start r \<le> s \<and> s \<le> range_end r)" for s
    using a by auto
  then have e: "filteredData tz txs CUSTOM cd r = []"
    by (simp add: filteredData_def inPeriod_CUSTOM)
  show ?thesis
    by (simp add: e stats_def accountingData_def dataToUse_def js_sort_def Object_entries_def)
qed

theorem reversed_range_empty_witness:
  "range_end reversed_range < range_start reversed_range
   \<and> filteredData 0 march_txs CUSTOM march_15 reversed_range = []
   \<and> stats (filteredData 0 march_txs CUSTOM march_15 reversed_range) =
       \<lparr>income = 0, expense = 0, profit = 0\<rparr>"
proof -
  have h: "range_end reversed_range < range_start reversed_range"
    by (simp add: reversed_range_def less_char_def)
  from reversed_range_empty[OF h, of 0 march_txs march_15 "[]"] h show ?thesis by blast
qed


section \<open>Account balances\<close>

lemma fold_add_amount: "fold (\<lambda>t sum. sum + amount t) xs s = s + sum_list (map amount xs)"
  by (induction xs arbitrary: s) simp_all

text \<open>
  C2.  For every account the reported current balance is the initial balance plus the
  income and minus the expense booked on that account, summed over the whole transaction
  list; the dashboard computes it from the unfiltered list, so it is the same under every
  period selection.
\<close>

theorem account_balances_all_time:
  "map currentBalance (accountBalances txs accs) =
     map (\<lambda>acc. initialBalance acc
            + sum_list (map amount (filter (\<lambda>t. accountId t = Some (a_id acc) \<and> t_type t = INCOME) txs))
            - sum_list (map amount (filter (\<lambda>t. accountId t = Some (a_id acc) \<and> t_type t = EXPENSE) txs)))
       accs
   \<and> map a_id (accountBalances txs accs) = map a_id accs
   \<and> v_accountBalances (Dashboard tz L now txs accs period) = accountBalances txs accs
   \<and> v_accountBalances (Dashboard tz L now txs accs period) =
       v_accountBalances (Dashboard tz L now txs accs period')"
  by (simp add: accountBalances_def Dashboard_def fold_add_amount or0_def Let_def comp_def)


section \<open>Pagination\<close>

lemma ceiling_tenth: "\<lceil>real n / 10\<rceil> = int ((n + 9) div 10)"
proof -
  define q where "q = (n + 9) div 10"
  define r where "r = (n + 9) mod 10"
  have "n + 9 = 10 * q + r"
    by (simp add: q_def r_def)
  moreover have "r < 10"
    by (simp add: r_def)
  ultimately have a: "10 * q \<le> n + 9" and b: "n \<le> 10 * q"
    by simp_all
  have "real n \<le> real (10 * q)"
    using b by (rule of_nat_mono)
  moreover have "real (10 * q) \<le> real (n + 9)"
    using a by (rule of_nat_mono)
  ultimately have "\<lceil>real n / 10\<rceil> = int q"
    by (intro ceiling_unique) simp_all
  then show ?thesis by (simp add: q_def)
qed

lemma totalPages_div: "totalPages xs = (length xs + 9) div 10"
  by (simp add: totalPages_def ITEMS_PER_PAGE_def ceiling_tenth)

lemma page_Suc: "paginatedTransactions xs (int (Suc q)) = take 10 (drop (10 * q) xs)"
proof (cases "10 * q \<le> length xs")
  case True
  then show ?thesis
    by (auto simp: paginatedTransactions_def slice_def ITEMS_PER_PAGE_def Let_def min_def
        nat_mult_distrib nat_add_distrib mult.commute)
next
  case False
  then show ?thesis
    by (auto simp: paginatedTransactions_def slice_def ITEMS_PER_PAGE_def Let_def min_def)
qed

lemma concat_chunks: "concat (map (\<lambda>p. take k (drop (k * p) xs)) [0..<m]) = take (k * m) xs"
proof (induction m)
  case 0
  show ?case by simp
next
  case (Suc m)
  have "take (k * Suc m) xs = take (k * m + k) xs"
    by (simp add: add.commute)
  also have "\<dots> = take (k * m) xs @ take k (drop (k * m) xs)"
    by (rule take_add)
  finally show ?case using Suc by simp
qed

lemma concat_pages:
  "concat (map (\<lambda>p. paginatedTransactions xs (int p)) [1..<Suc (totalPages xs)]) = xs"
proof -
  have "map (\<lambda>p. paginatedTransactions xs (int p)) [1..<Suc (totalPages xs)]
        = map (\<lambda>p. paginatedTransactions xs (int (Suc p))) [0..<totalPages xs]"
    by (simp only: One_nat_def map_Suc_upt[symmetric] map_map comp_def)
  also have "\<dots> = map (\<lambda>p. take 10 (drop (10 * p) xs)) [0..<totalPages xs]"
    by (simp only: page_Suc)
  finally show ?thesis
    by (simp add: concat_chunks totalPages_div)
qed

lemma page_nonempty:
  assumes "1 \<le> p" and "p \<le> int (totalPages xs)"
  shows "paginatedTransactions xs p \<noteq> []"
proof -
  define q where "q = nat p - 1"
  have p: "p = int (Suc q)"
    using assms(1) by (simp add: q_def)
  with assms(2) have "Suc q \<le> (length xs + 9) div 10"
    by (simp add: totalPages_div)
  then have "10 * q < length xs" by linarith
  then show ?thesis
    by (simp add: p page_Suc del: of_nat_Suc)
qed

text \<open>
  With ten items per page, the number of pages is the ceiling of a tenth of the item
  count, and the pages 1 to totalPages, put one after the other, give back the list.
  Every page from 1 to totalPages has an item, and the two page buttons keep the current
  page between 1 and totalPages.
\<close>

lemma pages_cover_list:
  "int (totalPages xs) = \<lceil>real (length xs) / 10\<rceil>
   \<and> concat (map (\<lambda>p. paginatedTransactions xs (int p)) [1..<Suc (totalPages xs)]) = xs
   \<and> (1 \<le> p \<and> p \<le> int (totalPages xs) \<longrightarrow>
        paginatedTransactions xs p \<noteq> []
        \<and> 1 \<le> nextPage xs p \<and> nextPage xs p \<le> int (totalPages xs)
        \<and> 1 \<le> prevPage p \<and> prevPage p \<le> int (totalPages xs)
        \<and> nextPage xs (int (totalPages xs)) = int (totalPages xs))"
proof (intro conjI impI)
  show "int (totalPages xs) = \<lceil>real (length xs) / 10\<rceil>"
    by (simp add: totalPages_div ceiling_tenth)
  show "concat (map (\<lambda>p. paginatedTransactions xs (int p)) [1..<Suc (totalPages xs)]) = xs"
    by (rule concat_pages)
next
  assume h: "1 \<le> p \<and> p \<le> int (totalPages xs)"
  then show "paginatedTransactions xs p \<noteq> []" by (simp add: page_nonempty)
  from h show "1 \<le> nextPage xs p" by (simp add: nextPage_def)
  from h show "nextPage xs p \<le> int (totalPages xs)" by (simp add: nextPage_def)
  from h show "1 \<le> prevPage p" by (simp add: prevPage_def)
  from h show "prevPage p \<le> int (totalPages xs)" by (simp add: prevPage_def)
  show "nextPage xs (int (totalPages xs)) = int (totalPages xs)" by (simp add: nextPage_def)
qed

lemma pages_cover_list_example:
  "(1::int) \<le> 1 \<and> 1 \<le> int (totalPages march_txs)
   \<and> paginatedTransactions march_txs 1 \<noteq> [] \<and> nextPage march_txs 1 = 1"
proof -
  have t: "int (totalPages march_txs) = 1" by (simp add: totalPages_div march_txs_def)
  then have h: "(1::int) \<le> 1 \<and> 1 \<le> int (totalPages march_txs)" by simp
  from pages_cover_list[of march_txs 1] h have "paginatedTransactions march_txs 1 \<noteq> []" by blast
  moreover have "nextPage march_txs 1 = 1" using t by (simp add: nextPage_def)
  ultimately show ?thesis using h by blast
qed

text \<open>
  A change of search term, type filter or sort order sets the page back to 1, and the
  next-page button never leaves the pages of the list it is shown with.
\<close>

lemma page_reset_on_change:
  "x \<noteq> lv_searchTerm v \<Longrightarrow> lv_currentPage (setSearchTerm x v) = 1"
  "f \<noteq> lv_filterType v \<Longrightarrow> lv_currentPage (setFilterType f v) = 1"
  "o' \<noteq> lv_sortOrder v \<Longrightarrow> lv_currentPage (setSortOrder o' v) = 1"
  by (simp_all add: setSearchTerm_def setFilterType_def setSortOrder_def)

lemma clickNext_clamped:
  "lv_currentPage (clickNext v) \<le> int (totalPages (processedOf v))"
  "processedOf (clickNext v) = processedOf v"
  by (simp_all add: clickNext_def nextPage_def processedOf_def)

text \<open>The slice itself does not clamp: a page after the last one is empty.\<close>

lemma page_beyond_last_differs:
  "paginatedTransactions march_txs (int (totalPages march_txs) + 1)
     \<noteq> paginatedTransactions march_txs (int (totalPages march_txs))"
  by (simp add: totalPages_div march_txs_def paginatedTransactions_def slice_def ITEMS_PER_PAGE_def)

lemma eleven_newest_first:
  "map t_id (processedOf (initialView eleven_txs)) =
     [''11'', ''10'', ''9'', ''8'', ''7'', ''6'', ''5'', ''4'', ''3'', ''2'', ''1'']"
  by code_simp

text \<open>
  C3.  The page is not set back when the list shrinks.  With eleven transactions the
  next-page button leads to page 2, which shows the oldest one.  After that transaction
  is deleted ten are left on a single page, the view still stands on page 2 and shows
  nothing, and the page buttons are not rendered.
\<close>

theorem stale_page_after_delete:
  "lv_currentPage (clickNext (initialView eleven_txs)) = 2
   \<and> map t_id (shownPage (clickNext (initialView eleven_txs))) = [''1'']
   \<and> lv_currentPage
        (rerender (deleteTransaction ''1'' eleven_state) (clickNext (initialView eleven_txs))) = 2
   \<and> length (processedOf
        (rerender (deleteTransaction ''1'' eleven_state) (clickNext (initialView eleven_txs)))) = 10
   \<and> totalPages (processedOf
        (rerender (deleteTransaction ''1'' eleven_state) (clickNext (initialView eleven_txs)))) = 1
   \<and> shownPage
        (rerender (deleteTransaction ''1'' eleven_state) (clickNext (initialView eleven_txs))) = []
   \<and> \<not> pagerShown
        (rerender (deleteTransaction ''1'' eleven_state) (clickNext (initialView eleven_txs)))"
proof -
  let ?v = "clickNext (initialView eleven_txs)"
  let ?w = "rerender (deleteTransaction ''1'' eleven_state) ?v"
  have p: "processedOf (initialView eleven_txs) = rev eleven_txs"
    by code_simp
  have l: "length eleven_txs = 11"
    by (simp add: eleven_txs_def)
  have c: "lv_currentPage (initialView eleven_txs) = 1"
    by (simp add: initialView_def)
  have n: "lv_currentPage ?v = 2"
    unfolding clickNext_def p by (simp add: c nextPage_def totalPages_div l)
  have pv: "processedOf ?v = rev eleven_txs"
    using p by (simp add: processedOf_def clickNext_def)
  have s: "map t_id (shownPage ?v) = [''1'']"
    unfolding shownPage_def pv n by code_simp
  have w: "processedOf ?w =
      processedTransactions (transactions (deleteTransaction ''1'' eleven_state)) [] FT_ALL NEWEST"
    by (simp add: processedOf_def rerender_def clickNext_def initialView_def)
  have q: "processedOf ?w = rev (tl eleven_txs)"
    unfolding w by code_simp
  have lq: "length (processedOf ?w) = 10"
    by (simp add: q l)
  have cw: "lv_currentPage ?w = 2"
    using n by (simp add: rerender_def)
  have sw: "shownPage ?w = []"
    unfolding shownPage_def cw
    by (simp add: paginatedTransactions_def slice_def ITEMS_PER_PAGE_def lq)
  show ?thesis
    using n s cw lq sw by (simp add: totalPages_div pagerShown_def ITEMS_PER_PAGE_def)
qed


section \<open>Account references of stored transactions\<close>
















text \<open>
  The guard of \<^verbatim>\<open>addTransaction\<close> needs an account: called on a state without accounts,
  which loading never produces, it would leave the reference undefined.
\<close>

lemma add_without_accounts_keeps_undefined:
  "\<not> hasAccountId (hd (transactions (addTransaction no_accounts 1700000000000
        (tx [] ''2024-03-15'' 10 EXPENSE ''Lainnya'' None))))"
  by code_simp


section \<open>Calendar arithmetic\<close>

lemma DaysInMonth_ge: "28 \<le> DaysInMonth y m"
  by (simp add: DaysInMonth_def)

lemma DaysInMonth_le: "DaysInMonth y m \<le> 31"
  by (simp add: DaysInMonth_def)

lemma DaysInMonth_11: "DaysInMonth y 11 = 31"
  by (simp add: DaysInMonth_def)

lemma next_day_valid: "valid_ymd c \<Longrightarrow> valid_ymd (next_day c)"
  using DaysInMonth_ge[of "fst c" "fst (snd c) + 1"] DaysInMonth_ge[of "fst c + 1" 0]
  by (cases c) (auto simp: valid_ymd_def next_day_def)

lemma prev_day_valid: "valid_ymd c \<Longrightarrow> valid_ymd (prev_day c)"
  using DaysInMonth_ge[of "fst c" "fst (snd c)"] DaysInMonth_le[of "fst c" "fst (snd c)"]
    DaysInMonth_ge[of "fst c" "fst (snd c) - 1"] DaysInMonth_11[of "fst c - 1"]
  by (cases c) (auto simp: valid_ymd_def prev_day_def)

lemma prev_next_day: "valid_ymd c \<Longrightarrow> prev_day (next_day c) = c"
  using DaysInMonth_11[of "fst c"]
  by (cases c) (auto simp: valid_ymd_def next_day_def prev_day_def)

lemma next_prev_day: "valid_ymd c \<Longrightarrow> next_day (prev_day c) = c"
  using DaysInMonth_ge[of "fst c" "fst (snd c)"] DaysInMonth_11[of "fst c - 1"]
  by (cases c) (auto simp: valid_ymd_def next_day_def prev_day_def)

lemma funpow_next_valid: "valid_ymd c \<Longrightarrow> valid_ymd ((next_day ^^ n) c)"
  by (induction n) (simp_all add: next_day_valid)

lemma funpow_prev_valid: "valid_ymd c \<Longrightarrow> valid_ymd ((prev_day ^^ n) c)"
  by (induction n) (simp_all add: prev_day_valid)

lemma add_days_valid: "valid_ymd c \<Longrightarrow> valid_ymd (add_days c n)"
  by (simp add: add_days_def funpow_next_valid funpow_prev_valid)

lemma add_days_0: "add_days c 0 = c"
  by (simp add: add_days_def)

lemma add_days_succ:
  assumes "valid_ymd c"
  shows "add_days c (n + 1) = next_day (add_days c n)"
proof (cases "0 \<le> n")
  case True
  then have "nat (n + 1) = Suc (nat n)" by simp
  with True show ?thesis by (simp add: add_days_def)
next
  case False
  define k where "k = nat (- (n + 1))"
  have k: "nat (- n) = Suc k" and k': "nat (- (n + 1)) = k"
    using False by (simp_all add: k_def)
  have "next_day ((prev_day ^^ Suc k) c) = (prev_day ^^ k) c"
    using funpow_prev_valid[OF assms, of k] by (simp add: next_prev_day)
  with False k k' show ?thesis
    by (cases "n + 1 = 0") (auto simp: add_days_def)
qed

lemma add_days_pred:
  assumes "valid_ymd c"
  shows "add_days c (n - 1) = prev_day (add_days c n)"
proof -
  have "add_days c n = next_day (add_days c (n - 1))"
    using add_days_succ[OF assms, of "n - 1"] by simp
  then show ?thesis
    using add_days_valid[OF assms, of "n - 1"] by (simp add: prev_next_day)
qed

lemma add_days_add:
  assumes "valid_ymd c"
  shows "add_days (add_days c a) b = add_days c (a + b)"
proof (induction b rule: int_induct[where k = 0])
  case base
  show ?case by (simp add: add_days_0)
next
  case (step1 i)
  have "add_days (add_days c a) (i + 1) = next_day (add_days (add_days c a) i)"
    by (rule add_days_succ) (rule add_days_valid[OF assms])
  also have "\<dots> = add_days c (a + i + 1)"
    using step1 add_days_succ[OF assms, of "a + i"] by simp
  finally show ?case by (simp add: add.assoc)
next
  case (step2 i)
  have "add_days (add_days c a) (i - 1) = prev_day (add_days (add_days c a) i)"
    by (rule add_days_pred) (rule add_days_valid[OF assms])
  also have "\<dots> = add_days c (a + i - 1)"
    using step2 add_days_pred[OF assms, of "a + i"] by simp
  finally show ?case by (simp add: algebra_simps)
qed

lemma toLocal_fromLocal:
  assumes "valid_ymd c" and "0 \<le> ms" and "ms < msPerDay"
  shows "toLocal tz (fromLocal tz c ms) = (c, ms)"
proof -
  define q where "q = (ms - tz) div msPerDay"
  define r where "r = (ms - tz) mod msPerDay"
  have D: "0 < msPerDay" by (simp add: msPerDay_def)
  have e: "r + tz = ms + (- q) * msPerDay"
    unfolding q_def r_def by (simp add: algebra_simps minus_mult_div_eq_mod[symmetric])
  have "(r + tz) div msPerDay = - q"
    unfolding e using assms(2,3) D div_mult_self1[of msPerDay ms "- q"]
    by (simp only: div_pos_pos_trivial)
  moreover have "(r + tz) mod msPerDay = ms"
    unfolding e using assms(2,3) mod_mult_self1[of ms "- q" msPerDay]
    by (simp only: mod_pos_pos_trivial)
  ultimately show ?thesis
    by (simp add: toLocal_def fromLocal_def Let_def q_def[symmetric] r_def[symmetric]
        add_days_add[OF assms(1)] add_days_0)
qed

lemma toLocal_utc_midnight:
  assumes "0 \<le> tz" and "tz < msPerDay"
  shows "toLocal tz (c, 0) = (c, tz)"
  using assms by (simp add: toLocal_def add_days_0)


section \<open>Dashboard periods\<close>

lemma MakeDay_first: "MakeDay y m 1 = (y + m div 12, m mod 12, 1)"
  by (simp add: MakeDay_def add_days_0)

lemma valid_first: "0 \<le> m \<Longrightarrow> m \<le> 11 \<Longrightarrow> valid_ymd (y, m, 1)"
  using DaysInMonth_ge[of y m] by (simp add: valid_ymd_def)

lemma toLocal_new_Date_first:
  "\<not> (0 \<le> y \<and> y \<le> 99) \<Longrightarrow>
     toLocal tz (new_Date_ymd tz y m 1) = ((y + m div 12, m mod 12, 1), 0)"
  by (simp add: new_Date_ymd_def MakeDay_first toLocal_fromLocal valid_first msPerDay_def)

lemma filterFrom_filter:
  "period \<noteq> THIS_WEEK \<Longrightarrow>
     filterFrom tz period sod now ts = filter (\<lambda>t. fst (keepTransaction tz period sod now t)) ts"
proof (induction ts)
  case Nil
  show ?case by simp
next
  case (Cons t ts)
  have "snd (keepTransaction tz period sod now t) = now"
    using Cons.prems by (cases period) (simp_all add: keepTransaction_def Let_def)
  then show ?case
    using Cons by (cases "keepTransaction tz period sod now t") simp
qed

lemma keep_LAST_MONTH_january:
  assumes "getMonth tz now = 0" and "99 < getFullYear tz now"
  shows "fst (keepTransaction tz LAST_MONTH sod now t) = local_in tz (getFullYear tz now - 1) 11 t"
proof -
  have "toLocal tz (new_Date_ymd tz (getFullYear tz now) (- 1) 1) = ((getFullYear tz now - 1, 11, 1), 0)"
    using assms(2) by (simp add: toLocal_new_Date_first)
  then show ?thesis
    using assms(1)
    by (auto simp: keepTransaction_def Let_def local_in_def getMonth_def getFullYear_def
        split: option.splits)
qed


lemma local_in_dated_in:
  assumes "0 \<le> tz" and "tz < msPerDay"
  shows "local_in tz y m t = dated_in y m t"
  using assms
  by (auto simp: local_in_def dated_in_def new_Date_def getFullYear_def getMonth_def
      toLocal_utc_midnight split: option.splits)

text \<open>
  When the clock stands in January, LAST_MONTH selects the transactions whose \<^verbatim>\<open>Date\<close>
  object lies, in local time, in December of the year before: the month index -1 is
  carried into the year.  For a time zone from UTC to just under UTC+24h these are the
  transactions dated in that December.
\<close>

lemma last_month_of_january_is_december:
  assumes "getMonth tz now = 0" and "99 < getFullYear tz now"
  shows "filteredTransactions tz now txs LAST_MONTH =
           filter (local_in tz (getFullYear tz now - 1) 11) txs
         \<and> (0 \<le> tz \<and> tz < msPerDay \<longrightarrow>
              filteredTransactions tz now txs LAST_MONTH =
                filter (dated_in (getFullYear tz now - 1) 11) txs)"
proof -
  have a: "filteredTransactions tz now txs LAST_MONTH =
           filter (local_in tz (getFullYear tz now - 1) 11) txs"
    by (simp add: filteredTransactions_def filterFrom_filter keep_LAST_MONTH_january[OF assms])
  have "0 \<le> tz \<and> tz < msPerDay \<Longrightarrow>
          local_in tz (getFullYear tz now - 1) 11 = dated_in (getFullYear tz now - 1) 11"
    by (rule ext) (simp add: local_in_dated_in)
  with a show ?thesis
    by auto
qed

lemma now_wib: "toLocal wib noon_10_january_wib = ((2024, 0, 10), 12 * 3600000)"
  by code_simp

lemma last_month_of_january_is_december_example:
  "getMonth wib noon_10_january_wib = 0 \<and> 99 < getFullYear wib noon_10_january_wib
   \<and> 0 \<le> wib \<and> wib < msPerDay
   \<and> filteredTransactions wib noon_10_january_wib winter_txs LAST_MONTH =
       [tx ''2'' ''2023-12-01'' 20 EXPENSE ''Lainnya'' None,
        tx ''3'' ''2023-12-31'' 30 INCOME ''Penjualan'' None]"
proof -
  have m: "getMonth wib noon_10_january_wib = 0" and y: "getFullYear wib noon_10_january_wib = 2024"
    by (simp_all add: getMonth_def getFullYear_def now_wib)
  have z: "0 \<le> wib \<and> wib < msPerDay" by (simp add: wib_def msPerDay_def)
  have f: "filter (dated_in (2024 - 1) 11) winter_txs =
       [tx ''2'' ''2023-12-01'' 20 EXPENSE ''Lainnya'' None,
        tx ''3'' ''2023-12-31'' 30 INCOME ''Penjualan'' None]"
    by code_simp
  have h: "99 < getFullYear wib noon_10_january_wib" by (simp add: y)
  from last_month_of_january_is_december[OF m h, of winter_txs] z
  have "filteredTransactions wib noon_10_january_wib winter_txs LAST_MONTH =
          filter (dated_in (getFullYear wib noon_10_january_wib - 1) 11) winter_txs"
    by blast
  with f have "filteredTransactions wib noon_10_january_wib winter_txs LAST_MONTH =
       [tx ''2'' ''2023-12-01'' 20 EXPENSE ''Lainnya'' None,
        tx ''3'' ''2023-12-31'' 30 INCOME ''Penjualan'' None]"
    by (simp add: y)
  with m h z show ?thesis by blast
qed

text \<open>
  C7.  The date string is read as UTC midnight and its month is taken in local time.  At
  noon of 10 January 2024 in New York (UTC-5) LAST_MONTH keeps the transaction dated
  2024-01-01 and drops the one dated 2023-12-01: the selection is not December 2023.
\<close>

theorem last_month_west_of_utc:
  "filteredTransactions est noon_10_january_est winter_txs LAST_MONTH =
       [tx ''3'' ''2023-12-31'' 30 INCOME ''Penjualan'' None,
        tx ''4'' ''2024-01-01'' 40 INCOME ''Penjualan'' None]"
  by code_simp

lemma december_by_date:
  "filter (dated_in 2023 11) winter_txs =
       [tx ''2'' ''2023-12-01'' 20 EXPENSE ''Lainnya'' None,
        tx ''3'' ''2023-12-31'' 30 INCOME ''Penjualan'' None]"
  by code_simp

text \<open>
  C6.  The TODAY branch compares with the start of the day only.  At noon of 15 March 2024
  in Jakarta a transaction dated 16 March is kept.
\<close>

theorem today_keeps_tomorrow:
  "filteredTransactions wib noon_15_march_wib [tx ''9'' ''2024-03-16'' 30 EXPENSE ''Lainnya'' None] TODAY
     = [tx ''9'' ''2024-03-16'' 30 EXPENSE ''Lainnya'' None]"
  by code_simp


text \<open>In general the TODAY subset is bounded from below only.\<close>

lemma today_lower_bound_only:
  "filteredTransactions tz now txs TODAY =
     filter (\<lambda>t. case new_Date (date t) of
                   None \<Rightarrow> False
                 | Some d \<Rightarrow>
                     getTime (new_Date_ymd tz (getFullYear tz now) (getMonth tz now) (getDate tz now))
                       \<le> getTime d)
       txs"
  by (simp add: filteredTransactions_def filterFrom_filter keepTransaction_def Let_def)


section \<open>In-place sorting\<close>

text \<open>
  C9.  \<^verbatim>\<open>topExpenses\<close> sorts the array of filtered expenses itself.  For two expenses of
  10 and 30 the array at address 2, the filtered expenses, holds them in this order before
  the call and in descending order after it; the result of \<^verbatim>\<open>slice\<close> is the new array at
  address 3.
\<close>

theorem topExpenses_sorts_in_place:
  "reportsTop_st 0 rising_expenses MONTHLY march_15 march_range [] =
     ((1, 2, 3),
      [rising_expenses, rising_expenses, rising_expenses],
      [rising_expenses, rising_expenses, rev rising_expenses, rev rising_expenses])"
  by code_simp

text \<open>
  The transaction list and the period subset are not touched, and the list view sorts an
  array of its own.
\<close>

lemma reports_inputs_kept:
  "(case reportsTop_st tz txs p cd r sel of
      ((fd, fe, tops), before, after) \<Rightarrow>
        deref after 0 = txs
        \<and> deref after fd = filteredData tz txs p cd r
        \<and> deref after fe = js_sort (\<lambda>a b. amount b - amount a) (deref before fe)
        \<and> deref after tops = slice (deref after fe) 0 5)"
  by (simp add: reportsTop_st_def filteredData_st_def filteredExpenseData_st_def topExpenses_st_def
      Array_filter_def Array_sort_def Array_slice_def alloc_def deref_def filteredData_def)

lemma processed_in_fresh_array:
  "processedTransactions_st 0 s f so [txs] = (1, [txs, processedTransactions txs s f so])"
  by (simp add: processedTransactions_st_def processedTransactions_def Array_filter_def
      Array_sort_def alloc_def deref_def)


section \<open>Day numbers\<close>



















section \<open>Keyed tables and their sorted values\<close>





subsection \<open>Sorting by a key that is never NaN\<close>





section \<open>Charts of a year\<close>




















lemma month_without_transactions:
  "\<forall>t\<in>set data. monthOf tz t \<noteq> Some m \<Longrightarrow> monthTotal tz ty data m = 0"
  by (induction data) (simp_all add: monthTotal_def)

lemma twelve_rows:
  "length (yearRows tz L y data) = 12" "length (dashboardYearRows tz L data) = 12"
  by (simp_all add: yearRows_def dashboardYearRows_def months_def)

end
